theory Spec2Isabelle
  imports Main
begin

section \<open>The shared terminal session of server.ts\<close>

text \<open>
  The server keeps one global object \<^verbatim>\<open>SHARED_SESSION\<close> and mutates it from event
  handlers: the WebSocket server's connection, message and close handlers and the
  pseudo-terminal's data and exit handlers. Node runs each handler to completion before
  the next one starts, so a handler is a function from the state before to the state
  after, and a run of the server is a fold over the events.

  What lies outside the file is kept as data. A socket is an identity; the calls the
  handlers make on it (\<^verbatim>\<open>send\<close>, \<^verbatim>\<open>close\<close>) are appended to logs, and its
  \<^verbatim>\<open>readyState\<close> is read from a table that the transport controls. A pseudo-terminal
  is an identity too, and the calls made on it (\<^verbatim>\<open>spawn\<close>, \<^verbatim>\<open>write\<close>,
  \<^verbatim>\<open>resize\<close>, \<^verbatim>\<open>kill\<close>) are logged. The two values a message handler draws from
  its environment, the result of \<^verbatim>\<open>crypto.randomBytes(8).toString("hex")\<close> and the
  result of \<^verbatim>\<open>pty.spawn\<close> (which may throw), are parameters of the handler. Of the
  other calls, \<^verbatim>\<open>write\<close> throws a TypeError when it is given no string and
  \<^verbatim>\<open>resize\<close> throws when a size is absent or zero, as node-pty does; \<^verbatim>\<open>kill\<close> and
  the calls on a socket are taken to return normally.
\<close>

subsection \<open>Data\<close>

type_synonym ws_id = nat
type_synonym pty_id = nat

datatype ready_state = CONNECTING | OPEN | CLOSING | CLOSED

text \<open>The three records the server serialises with \<^verbatim>\<open>JSON.stringify\<close>:
  \<^verbatim>\<open>{type:"output", data}\<close>, \<^verbatim>\<open>{type:"session", sessionId, shared, clients, isNew?}\<close>
  (the last field is absent in the answer to start) and \<^verbatim>\<open>{type:"exit", code}\<close>.\<close>

datatype server_msg =
    Output string
  | SessionMsg string bool nat "bool option"
  | ExitMsg int

text \<open>\<^verbatim>\<open>interface SharedSession\<close>. The set of clients is a JavaScript \<^verbatim>\<open>Set\<close>, which
  iterates in insertion order: a list without repetitions.\<close>

record SharedSession =
  pty :: "pty_id option"
  clients :: "ws_id list"
  outputBuffer :: "string list"
  maxBufferLines :: nat
  sessionId :: string
  createdAt :: nat

datatype pty_call =
    Spawn pty_id nat nat
  | Write pty_id string
  | Resize pty_id nat nat
  | Kill pty_id

datatype error = SyntaxError | TypeError | SpawnError | ResizeError

record world =
  session :: SharedSession
  readyState :: "ws_id \<Rightarrow> ready_state"
  sent :: "(ws_id \<times> server_msg) list"
  ptyCalls :: "pty_call list"
  closeCalls :: "(ws_id \<times> nat) list"
  errorLog :: "error list"

record env =
  randomHex :: string
  spawnResult :: "pty_id option"

text \<open>What \<^verbatim>\<open>JSON.parse(message.toString())\<close> gives: it throws, or it returns
  \<^verbatim>\<open>null\<close> (reading \<^verbatim>\<open>data.type\<close> then throws a TypeError), or it returns a value
  whose fields \<^verbatim>\<open>type\<close>, \<^verbatim>\<open>cols\<close>, \<^verbatim>\<open>rows\<close> and \<^verbatim>\<open>data\<close> are read; an
  absent field, or a \<^verbatim>\<open>type\<close> or \<^verbatim>\<open>data\<close> that is not a string, is \<open>None\<close>.\<close>

datatype inbound =
    Unparseable
  | JsonNull
  | Payload (msg_type: "string option") (msg_cols: "nat option")
      (msg_rows: "nat option") (msg_data: "string option")

datatype event =
    Connection ws_id bool
  | Message ws_id inbound env
  | Close ws_id
  | PtyData pty_id string
  | PtyExit pty_id int
  | Transport ws_id ready_state

subsection \<open>The output buffer\<close>

text \<open>\<^verbatim>\<open>xs.slice(-n)\<close>: the last \<open>n\<close> elements, and the whole array when \<open>n\<close> is
  zero, since \<^verbatim>\<open>-0\<close> is the index 0.\<close>

definition slice_last :: "nat \<Rightarrow> 'a list \<Rightarrow> 'a list" where
  "slice_last n xs = (if n = 0 then xs else drop (length xs - n) xs)"

definition set_buffer :: "string list \<Rightarrow> world \<Rightarrow> world" where
  "set_buffer b w = w\<lparr>session := (session w)\<lparr>outputBuffer := b\<rparr>\<rparr>"

definition addToBuffer :: "string \<Rightarrow> world \<Rightarrow> world" where
  "addToBuffer d w =
     (let pushed = outputBuffer (session w) @ [d] in
      if length pushed > maxBufferLines (session w)
      then set_buffer (slice_last (maxBufferLines (session w)) pushed) w
      else set_buffer pushed w)"

text \<open>\<^verbatim>\<open>SHARED_SESSION.outputBuffer.join("")\<close>.\<close>

definition snapshot :: "world \<Rightarrow> string" where
  "snapshot w = concat (outputBuffer (session w))"

subsection \<open>Sending\<close>

definition send :: "ws_id \<Rightarrow> server_msg \<Rightarrow> world \<Rightarrow> world" where
  "send c m w = w\<lparr>sent := sent w @ [(c, m)]\<rparr>"

text \<open>The loop the source writes three times,
  \<^verbatim>\<open>clients.forEach(client => { if (client.readyState === WebSocket.OPEN) client.send(m) })\<close>.\<close>

fun sendToOpen :: "server_msg \<Rightarrow> ws_id list \<Rightarrow> world \<Rightarrow> world" where
  "sendToOpen m [] w = w"
| "sendToOpen m (c # cs) w =
     sendToOpen m cs (if readyState w c = OPEN then send c m w else w)"

definition broadcastToClients :: "string \<Rightarrow> world \<Rightarrow> world" where
  "broadcastToClients message w = sendToOpen (Output message) (clients (session w)) w"

definition replayBufferToClient :: "ws_id \<Rightarrow> world \<Rightarrow> world" where
  "replayBufferToClient c w =
     (if length (outputBuffer (session w)) > 0 then send c (Output (snapshot w)) w else w)"

text \<open>The messages sent to one socket, in the order of the calls.\<close>

definition sends_to :: "ws_id \<Rightarrow> (ws_id \<times> server_msg) list \<Rightarrow> server_msg list" where
  "sends_to c xs = map snd (filter (\<lambda>x. fst x = c) xs)"

subsection \<open>The pseudo-terminal\<close>

text \<open>\<^verbatim>\<open>x || d\<close> on an optional number: absent and zero are falsy.\<close>

definition or_default :: "nat option \<Rightarrow> nat \<Rightarrow> nat" where
  "or_default x d = (case x of None \<Rightarrow> d | Some n \<Rightarrow> if n = 0 then d else n)"

text \<open>\<^verbatim>\<open>createSharedPty\<close>: \<^verbatim>\<open>pty.spawn\<close> throws before anything else has happened, or
  returns the new process, on which the data and exit handlers below are registered.\<close>

definition createSharedPty :: "nat \<Rightarrow> nat \<Rightarrow> env \<Rightarrow> world \<Rightarrow> error + (pty_id \<times> world)" where
  "createSharedPty cols rows e w =
     (case spawnResult e of
        None \<Rightarrow> Inl SpawnError
      | Some p \<Rightarrow>
          Inr (p, w\<lparr>ptyCalls := ptyCalls w @
                 [Spawn p (or_default (Some cols) 80) (or_default (Some rows) 24)]\<rparr>))"

definition onData :: "string \<Rightarrow> world \<Rightarrow> world" where
  "onData output w = broadcastToClients output (addToBuffer output w)"

definition set_pty :: "pty_id option \<Rightarrow> world \<Rightarrow> world" where
  "set_pty p w = w\<lparr>session := (session w)\<lparr>pty := p\<rparr>\<rparr>"

definition onExit :: "int \<Rightarrow> world \<Rightarrow> world" where
  "onExit exitCode w =
     set_pty None (sendToOpen (ExitMsg exitCode) (clients (session w)) w)"

subsection \<open>The connection handlers\<close>

definition set_sessionId :: "string \<Rightarrow> world \<Rightarrow> world" where
  "set_sessionId s w = w\<lparr>session := (session w)\<lparr>sessionId := s\<rparr>\<rparr>"

definition set_clients :: "ws_id list \<Rightarrow> world \<Rightarrow> world" where
  "set_clients cs w = w\<lparr>session := (session w)\<lparr>clients := cs\<rparr>\<rparr>"

definition call_pty :: "pty_call \<Rightarrow> world \<Rightarrow> world" where
  "call_pty x w = w\<lparr>ptyCalls := ptyCalls w @ [x]\<rparr>"

text \<open>\<^verbatim>\<open>pty.write(data.data)\<close> and \<^verbatim>\<open>pty.resize(data.cols, data.rows)\<close> on a live
  process. The library is not part of the repository; it refuses a missing string and
  sizes that are absent or not positive by throwing, and the call then has no effect.\<close>

definition ptyWrite :: "pty_id \<Rightarrow> string option \<Rightarrow> world \<Rightarrow> error \<times> world + world" where
  "ptyWrite p x w =
     (case x of None \<Rightarrow> Inl (TypeError, w) | Some s \<Rightarrow> Inr (call_pty (Write p s) w))"

definition ptyResize :: "pty_id \<Rightarrow> nat option \<Rightarrow> nat option \<Rightarrow> world \<Rightarrow> error \<times> world + world" where
  "ptyResize p co ro w =
     (case (co, ro) of
        (Some c, Some r) \<Rightarrow>
          if c = 0 \<or> r = 0 then Inl (ResizeError, w) else Inr (call_pty (Resize p c r) w)
      | _ \<Rightarrow> Inl (ResizeError, w))"

text \<open>The body of the \<^verbatim>\<open>try\<close> block after parsing: the \<^verbatim>\<open>switch\<close> on
  \<^verbatim>\<open>data.type\<close>. An exception leaves the state as it was when it was thrown.\<close>

definition handleMessage :: "ws_id \<Rightarrow> inbound \<Rightarrow> env \<Rightarrow> world \<Rightarrow> error \<times> world + world" where
  "handleMessage c d e w =
     (if msg_type d = Some ''start'' then
        (if pty (session w) \<noteq> None then
           (let w1 = replayBufferToClient c w in
            Inr (send c (SessionMsg (sessionId (session w1)) True
                           (length (clients (session w1))) None) w1))
         else
           (case createSharedPty (or_default (msg_cols d) 80) (or_default (msg_rows d) 24) e w of
              Inl err \<Rightarrow> Inl (err, w)
            | Inr (p, w1) \<Rightarrow>
                (let w2 = set_buffer [] (set_sessionId (randomHex e) (set_pty (Some p) w1)) in
                 Inr (send c (SessionMsg (sessionId (session w2)) True
                                (length (clients (session w2))) None) w2))))
      else if msg_type d = Some ''new'' then
        (let w1 = (case pty (session w) of
                     Some p \<Rightarrow> set_pty None (call_pty (Kill p) w)
                   | None \<Rightarrow> w);
             w2 = set_sessionId (randomHex e) (set_buffer [] w1)
         in case createSharedPty (or_default (msg_cols d) 80) (or_default (msg_rows d) 24) e w2 of
              Inl err \<Rightarrow> Inl (err, w2)
            | Inr (p, w3) \<Rightarrow>
                (let w4 = set_pty (Some p) w3 in
                 Inr (sendToOpen (SessionMsg (sessionId (session w4)) True
                                    (length (clients (session w4))) (Some True))
                        (clients (session w4)) w4)))
      else if msg_type d = Some ''input'' then
        (case pty (session w) of
           Some p \<Rightarrow> ptyWrite p (msg_data d) w
         | None \<Rightarrow> Inr w)
      else if msg_type d = Some ''resize'' then
        (case pty (session w) of
           Some p \<Rightarrow> ptyResize p (msg_cols d) (msg_rows d) w
         | None \<Rightarrow> Inr w)
      else Inr w)"

definition log_error :: "error \<Rightarrow> world \<Rightarrow> world" where
  "log_error x w = w\<lparr>errorLog := errorLog w @ [x]\<rparr>"

text \<open>\<^verbatim>\<open>ws.on("message")\<close>: the \<^verbatim>\<open>try\<close> with its \<^verbatim>\<open>catch\<close>, which logs and
  returns.\<close>

definition onMessage :: "ws_id \<Rightarrow> inbound \<Rightarrow> env \<Rightarrow> world \<Rightarrow> world" where
  "onMessage c m e w =
     (case m of
        Unparseable \<Rightarrow> log_error SyntaxError w
      | JsonNull \<Rightarrow> log_error TypeError w
      | Payload t co ro da \<Rightarrow>
          (case handleMessage c m e w of
             Inl (err, w') \<Rightarrow> log_error err w'
           | Inr w' \<Rightarrow> w'))"

text \<open>\<^verbatim>\<open>Set.add\<close> and \<^verbatim>\<open>Set.delete\<close> on the insertion-ordered list.\<close>

definition set_add :: "'a \<Rightarrow> 'a list \<Rightarrow> 'a list" where
  "set_add x xs = (if x \<in> set xs then xs else xs @ [x])"

text \<open>\<^verbatim>\<open>wss.on("connection")\<close>; the flag is the outcome of the cookie and token check.
  A socket that is refused is closed by the server with code 4001, which puts it in the
  closing state, and gets no message or close handler.\<close>

definition onConnection :: "ws_id \<Rightarrow> bool \<Rightarrow> world \<Rightarrow> world" where
  "onConnection c authorized w =
     (if \<not> authorized
      then w\<lparr>readyState := (readyState w)(c := CLOSING),
             closeCalls := closeCalls w @ [(c, 4001)]\<rparr>
      else set_clients (set_add c (clients (session w))) w)"

definition onClose :: "ws_id \<Rightarrow> world \<Rightarrow> world" where
  "onClose c w = set_clients (removeAll c (clients (session w))) w"

subsection \<open>Runs\<close>

text \<open>The data and exit handlers are closures that do not mention the process they were
  registered on, so the process of the event is not an argument of \<open>onData\<close> and
  \<open>onExit\<close>.

  The server hands the connection handler a socket that is open. The message and close
  handlers of a socket are registered by the connection handler right after it has added
  the socket to the registry, and the socket emits no message after its close event,
  which removes it: a message reaches \<open>onMessage\<close> exactly while its socket is
  registered, and a message of any other socket has no handler and does nothing. A later
  change of a socket's \<^verbatim>\<open>readyState\<close> is an event of the transport.\<close>

fun step :: "event \<Rightarrow> world \<Rightarrow> world" where
  "step (Connection c authorized) w =
     onConnection c authorized (w\<lparr>readyState := (readyState w)(c := OPEN)\<rparr>)"
| "step (Message c m e) w =
     (if c \<in> set (clients (session w)) then onMessage c m e w else w)"
| "step (Close c) w = onClose c w"
| "step (PtyData p output) w = onData output w"
| "step (PtyExit p exitCode) w = onExit exitCode w"
| "step (Transport c r) w = w\<lparr>readyState := (readyState w)(c := r)\<rparr>"

definition run :: "event list \<Rightarrow> world \<Rightarrow> world" where
  "run evs w = fold step evs w"

text \<open>The state at start-up: the initial value of \<^verbatim>\<open>SHARED_SESSION\<close>, whose
  identifier is a random draw, and nothing done yet.\<close>

definition initial :: "string \<Rightarrow> nat \<Rightarrow> world" where
  "initial sid t =
     \<lparr>session = \<lparr>pty = None, clients = [], outputBuffer = [], maxBufferLines = 5000,
                 sessionId = sid, createdAt = t\<rparr>,
      readyState = (\<lambda>_. CONNECTING), sent = [], ptyCalls = [], closeCalls = [],
      errorLog = []\<rparr>"

text \<open>The state of the buffer that \<open>addToBuffer\<close> maintains: a positive cap, and no more
  chunks than the cap.\<close>

definition buffer_within_cap :: "world \<Rightarrow> bool" where
  "buffer_within_cap w =
     (0 < maxBufferLines (session w)
      \<and> length (outputBuffer (session w)) \<le> maxBufferLines (session w))"

subsection \<open>Reading the logs\<close>

definition is_output :: "server_msg \<Rightarrow> bool" where
  "is_output m = (case m of Output _ \<Rightarrow> True | _ \<Rightarrow> False)"

text \<open>The terminal text a list of messages carries: the data of its output messages.\<close>

definition output_text :: "server_msg list \<Rightarrow> string" where
  "output_text ms = concat (map (\<lambda>m. case m of Output x \<Rightarrow> x | _ \<Rightarrow> []) ms)"

subsection \<open>Concrete states and messages\<close>

text \<open>A session with room for two chunks only, one open client and a running process:
  small enough to evaluate by hand.\<close>

definition small_session :: world where
  "small_session =
     \<lparr>session = \<lparr>pty = Some 1, clients = [0], outputBuffer = [], maxBufferLines = 2,
                 sessionId = ''aaaa'', createdAt = 0\<rparr>,
      readyState = (\<lambda>_. OPEN), sent = [], ptyCalls = [Spawn 1 80 24], closeCalls = [],
      errorLog = []\<rparr>"

text \<open>Three registered clients, the middle one closing, and one chunk buffered.\<close>

definition three_clients :: world where
  "three_clients =
     \<lparr>session = \<lparr>pty = Some 1, clients = [0, 1, 2], outputBuffer = [''hi''],
                 maxBufferLines = 5000, sessionId = ''aaaa'', createdAt = 0\<rparr>,
      readyState = (\<lambda>c. if c = 1 then CLOSING else OPEN), sent = [],
      ptyCalls = [Spawn 1 80 24], closeCalls = [], errorLog = []\<rparr>"

text \<open>The three clients after the process has exited with code 0.\<close>

definition after_exit :: world where
  "after_exit = onExit 0 three_clients"

definition spawn_ok :: "pty_id \<Rightarrow> env" where
  "spawn_ok q = \<lparr>randomHex = ''bbbb'', spawnResult = Some q\<rparr>"

definition spawn_fails :: env where
  "spawn_fails = \<lparr>randomHex = ''bbbb'', spawnResult = None\<rparr>"

definition draw :: "string \<Rightarrow> pty_id \<Rightarrow> env" where
  "draw r q = \<lparr>randomHex = r, spawnResult = Some q\<rparr>"

definition start_msg :: inbound where
  "start_msg = Payload (Some ''start'') (Some 80) (Some 24) None"

definition new_msg :: inbound where
  "new_msg = Payload (Some ''new'') None None None"

definition input_msg :: "string \<Rightarrow> inbound" where
  "input_msg d = Payload (Some ''input'') None None (Some d)"

text \<open>The server after its first client has connected and started the session.\<close>

definition started :: world where
  "started = run [Connection 0 True, Transport 0 OPEN, Message 0 start_msg (draw ''1111'' 1)]
               (initial ''0000'' 0)"

text \<open>The started server after one chunk of output and the connection of a second
  client, which has not sent start yet.\<close>

definition joined :: world where
  "joined = run [PtyData 1 ''hi'', Connection 1 True] started"

section \<open>Auxiliary facts\<close>

lemma sendToOpen_eq:
  "sendToOpen m cs w =
     w\<lparr>sent := sent w @ map (\<lambda>c. (c, m)) (filter (\<lambda>c. readyState w c = OPEN) cs)\<rparr>"
  by (induction cs arbitrary: w) (simp_all add: send_def)

lemma sends_to_append: "sends_to c (xs @ ys) = sends_to c xs @ sends_to c ys"
  by (simp add: sends_to_def)

lemma sends_to_fanout:
  "distinct cs \<Longrightarrow>
   sends_to c (map (\<lambda>x. (x, m)) (filter P cs)) = (if c \<in> set cs \<and> P c then [m] else [])"
  by (induction cs) (auto simp: sends_to_def)

lemma drop_last_append:
  "drop (length (drop (length xs - n) xs @ ys) - n) (drop (length xs - n) xs @ ys)
     = drop (length (xs @ ys) - n) (xs @ ys)"
  by (cases "n \<le> length xs") (auto simp: add.commute)

lemma addToBuffer_buffer:
  "0 < maxBufferLines (session w) \<Longrightarrow>
   outputBuffer (session (addToBuffer d w)) =
     drop (length (outputBuffer (session w) @ [d]) - maxBufferLines (session w))
       (outputBuffer (session w) @ [d])"
  by (simp add: addToBuffer_def set_buffer_def slice_last_def Let_def)

lemma addToBuffer_cap:
  "maxBufferLines (session (addToBuffer d w)) = maxBufferLines (session w)"
  by (simp add: addToBuffer_def set_buffer_def Let_def)

lemma fold_addToBuffer_cap:
  "maxBufferLines (session (fold addToBuffer ds w)) = maxBufferLines (session w)"
  by (induction ds arbitrary: w) (simp_all add: addToBuffer_cap)

lemma fold_addToBuffer_buffer:
  "0 < maxBufferLines (session w) \<Longrightarrow>
   length (outputBuffer (session w)) \<le> maxBufferLines (session w) \<Longrightarrow>
   outputBuffer (session (fold addToBuffer ds w)) =
     drop (length (outputBuffer (session w) @ ds) - maxBufferLines (session w))
       (outputBuffer (session w) @ ds)"
proof (induction ds arbitrary: w)
  case Nil
  then show ?case by simp
next
  case (Cons d ds)
  let ?n = "maxBufferLines (session w)"
  let ?b = "outputBuffer (session w)"
  have b': "outputBuffer (session (addToBuffer d w)) = drop (length (?b @ [d]) - ?n) (?b @ [d])"
    using Cons.prems(1) by (rule addToBuffer_buffer)
  have n': "maxBufferLines (session (addToBuffer d w)) = ?n"
    by (rule addToBuffer_cap)
  have len: "length (outputBuffer (session (addToBuffer d w))) \<le> ?n"
    using Cons.prems(1) by (simp add: b')
  have "outputBuffer (session (fold addToBuffer ds (addToBuffer d w))) =
          drop (length (drop (length (?b @ [d]) - ?n) (?b @ [d]) @ ds) - ?n)
            (drop (length (?b @ [d]) - ?n) (?b @ [d]) @ ds)"
    using Cons.IH [of "addToBuffer d w"] Cons.prems(1) len by (simp only: b' n')
  also have "\<dots> = drop (length ((?b @ [d]) @ ds) - ?n) ((?b @ [d]) @ ds)"
    by (rule drop_last_append)
  finally show ?case by simp
qed

lemma broadcastToClients_eq:
  "broadcastToClients m w =
     w\<lparr>sent := sent w @ map (\<lambda>c. (c, Output m))
                 (filter (\<lambda>c. readyState w c = OPEN) (clients (session w)))\<rparr>"
  by (simp add: broadcastToClients_def sendToOpen_eq)

lemma replay_sent:
  "sent (replayBufferToClient c w) =
     sent w @ (if outputBuffer (session w) = [] then [] else [(c, Output (snapshot w))])"
  by (simp add: replayBufferToClient_def send_def)

lemma start_active:
  assumes "pty (session w) \<noteq> None"
  shows "onMessage c (Payload (Some ''start'') co ro da) e w =
     w\<lparr>sent := sent w @ (if outputBuffer (session w) = [] then [] else [(c, Output (snapshot w))])
          @ [(c, SessionMsg (sessionId (session w)) True (length (clients (session w))) None)]\<rparr>"
  using assms
  by (simp add: onMessage_def handleMessage_def replayBufferToClient_def send_def Let_def)

lemma removeAll_as_filter: "removeAll c xs = filter (\<lambda>x. x \<noteq> c) xs"
  by (induction xs) simp_all

lemma onClose_eq:
  "onClose c w = w\<lparr>session := (session w)\<lparr>clients := removeAll c (clients (session w))\<rparr>\<rparr>"
  by (simp add: onClose_def set_clients_def)

lemma run_Close:
  "run (map Close cs) w =
     w\<lparr>session := (session w)\<lparr>clients := filter (\<lambda>x. x \<notin> set cs) (clients (session w))\<rparr>\<rparr>"
proof (induction cs arbitrary: w)
  case Nil
  then show ?case by (simp add: run_def)
next
  case (Cons c cs)
  have "run (map Close (c # cs)) w = run (map Close cs) (onClose c w)"
    by (simp add: run_def)
  also have "\<dots> = (onClose c w)\<lparr>session := (session (onClose c w))
      \<lparr>clients := filter (\<lambda>x. x \<notin> set cs) (clients (session (onClose c w)))\<rparr>\<rparr>"
    by (rule Cons.IH)
  also have "\<dots> = w\<lparr>session := (session w)
      \<lparr>clients := filter (\<lambda>x. x \<notin> set (c # cs)) (clients (session w))\<rparr>\<rparr>"
    by (simp add: onClose_eq removeAll_as_filter)
  finally show ?case .
qed

lemma addToBuffer_frame:
  "clients (session (addToBuffer d w)) = clients (session w)"
  "pty (session (addToBuffer d w)) = pty (session w)"
  "sessionId (session (addToBuffer d w)) = sessionId (session w)"
  "readyState (addToBuffer d w) = readyState w"
  "sent (addToBuffer d w) = sent w"
  "ptyCalls (addToBuffer d w) = ptyCalls w"
  by (simp_all add: addToBuffer_def set_buffer_def Let_def)

lemma onData_frame:
  "clients (session (onData d w)) = clients (session w)"
  "pty (session (onData d w)) = pty (session w)"
  "sessionId (session (onData d w)) = sessionId (session w)"
  "readyState (onData d w) = readyState w"
  "ptyCalls (onData d w) = ptyCalls w"
  by (simp_all add: onData_def broadcastToClients_eq addToBuffer_frame)

lemma onData_sent:
  "sent (onData d w) =
     sent w @ map (\<lambda>c. (c, Output d))
                (filter (\<lambda>c. readyState w c = OPEN) (clients (session w)))"
  by (simp add: onData_def broadcastToClients_eq addToBuffer_frame)

lemma run_PtyData_sends:
  assumes "distinct (clients (session w))"
  shows "sends_to c (sent (run (map (PtyData p) ds) w)) =
           sends_to c (sent w) @
             (if c \<in> set (clients (session w)) \<and> readyState w c = OPEN
              then map Output ds else [])"
  using assms
proof (induction ds arbitrary: w)
  case Nil
  then show ?case by (simp add: run_def)
next
  case (Cons d ds)
  have "run (map (PtyData p) (d # ds)) w = run (map (PtyData p) ds) (onData d w)"
    by (simp add: run_def)
  moreover have "distinct (clients (session (onData d w)))"
    using Cons.prems by (simp add: onData_frame)
  ultimately show ?case
    using Cons.IH [of "onData d w"] Cons.prems
    by (simp add: onData_frame onData_sent sends_to_append sends_to_fanout)
qed

lemma onExit_eq:
  "onExit code w =
     w\<lparr>session := (session w)\<lparr>pty := None\<rparr>,
       sent := sent w @ map (\<lambda>c. (c, ExitMsg code))
                 (filter (\<lambda>c. readyState w c = OPEN) (clients (session w)))\<rparr>"
  by (simp add: onExit_def set_pty_def sendToOpen_eq)

lemma start_empty_spawned:
  assumes "pty (session w) = None" and "spawnResult e = Some q"
  shows "onMessage c (Payload (Some ''start'') co ro da) e w =
     w\<lparr>session := (session w)\<lparr>pty := Some q, sessionId := randomHex e, outputBuffer := []\<rparr>,
       ptyCalls := ptyCalls w @ [Spawn q (or_default co 80) (or_default ro 24)],
       sent := sent w @ [(c, SessionMsg (randomHex e) True (length (clients (session w))) None)]\<rparr>"
  using assms
  by (simp add: onMessage_def handleMessage_def createSharedPty_def set_buffer_def set_pty_def
      set_sessionId_def send_def Let_def or_default_def split: option.splits)

lemma start_empty_failed:
  assumes "pty (session w) = None" and "spawnResult e = None"
  shows "onMessage c (Payload (Some ''start'') co ro da) e w =
     w\<lparr>errorLog := errorLog w @ [SpawnError]\<rparr>"
  using assms
  by (simp add: onMessage_def handleMessage_def createSharedPty_def log_error_def)

lemma new_spawned:
  assumes "spawnResult e = Some q"
  shows "onMessage c (Payload (Some ''new'') co ro da) e w =
     w\<lparr>session := (session w)\<lparr>pty := Some q, outputBuffer := [], sessionId := randomHex e\<rparr>,
       ptyCalls := ptyCalls w @ (case pty (session w) of Some p \<Rightarrow> [Kill p] | None \<Rightarrow> [])
                     @ [Spawn q (or_default co 80) (or_default ro 24)],
       sent := sent w @ map (\<lambda>c. (c, SessionMsg (randomHex e) True (length (clients (session w))) (Some True)))
                 (filter (\<lambda>c. readyState w c = OPEN) (clients (session w)))\<rparr>"
  using assms
  by (simp add: onMessage_def handleMessage_def createSharedPty_def set_buffer_def set_pty_def
      set_sessionId_def call_pty_def sendToOpen_eq Let_def or_default_def split: option.splits)

lemma input_without_pty:
  "pty (session w) = None \<Longrightarrow> onMessage c (Payload (Some ''input'') co ro da) e w = w"
  by (simp add: onMessage_def handleMessage_def)

lemma new_then_predecessor_exit:
  assumes "pty (session w) = Some p" and "spawnResult e = Some q"
    and "c \<in> set (clients (session w))"
  shows "pty (session (run [Message c (Payload (Some ''new'') co ro da) e] w)) = Some q"
    and "pty (session (run [Message c (Payload (Some ''new'') co ro da) e, PtyExit p code] w)) = None"
  using assms by (simp_all add: run_def new_spawned onExit_eq)

lemma started_eq:
  "started =
     \<lparr>session = \<lparr>pty = Some 1, clients = [0], outputBuffer = [], maxBufferLines = 5000,
                 sessionId = ''1111'', createdAt = 0\<rparr>,
      readyState = (\<lambda>_. CONNECTING)(0 := OPEN),
      sent = [(0, SessionMsg ''1111'' True 1 None)], ptyCalls = [Spawn 1 80 24],
      closeCalls = [], errorLog = []\<rparr>"
  by (simp add: started_def run_def start_msg_def draw_def initial_def onConnection_def
      set_clients_def set_add_def start_empty_spawned or_default_def)

lemma addToBuffer_last:
  "outputBuffer (session (addToBuffer d w)) \<noteq> []
   \<and> last (outputBuffer (session (addToBuffer d w))) = d"
  by (simp add: addToBuffer_def set_buffer_def slice_last_def Let_def)

lemma onData_buffer:
  "outputBuffer (session (onData d w)) = outputBuffer (session (addToBuffer d w))"
  by (simp add: onData_def broadcastToClients_eq)

lemma snapshot_onData:
  "snapshot (onData d w) = concat (butlast (outputBuffer (session (onData d w)))) @ d"
proof -
  let ?b = "outputBuffer (session (onData d w))"
  have "?b \<noteq> []" and "last ?b = d"
    using addToBuffer_last [of d w] by (simp_all add: onData_buffer)
  then have "?b = butlast ?b @ [d]"
    using append_butlast_last_id [of ?b] by simp
  then have "concat ?b = concat (butlast ?b @ [d])"
    by simp
  then show ?thesis
    by (simp add: snapshot_def)
qed

lemma joined_eq:
  "joined =
     \<lparr>session = \<lparr>pty = Some 1, clients = [0, 1], outputBuffer = [''hi''],
                 maxBufferLines = 5000, sessionId = ''1111'', createdAt = 0\<rparr>,
      readyState = (\<lambda>_. CONNECTING)(0 := OPEN, 1 := OPEN),
      sent = [(0, SessionMsg ''1111'' True 1 None), (0, Output ''hi'')],
      ptyCalls = [Spawn 1 80 24], closeCalls = [], errorLog = []\<rparr>"
  by (simp add: joined_def started_eq run_def onData_def addToBuffer_def set_buffer_def
      broadcastToClients_eq onConnection_def set_clients_def set_add_def Let_def)

lemma launch_failure_after_spawn:
  "sends_to 0 (sent (run [Connection 0 True, Message 0 start_msg (draw ''1111'' 1),
                          PtyData 1 ''exec failed'', PtyExit 1 1] (initial ''0000'' 0))) =
     [SessionMsg ''1111'' True 1 None, Output ''exec failed'', ExitMsg 1]
   \<and> errorLog (run [Connection 0 True, Message 0 start_msg (draw ''1111'' 1),
                    PtyData 1 ''exec failed'', PtyExit 1 1] (initial ''0000'' 0)) = []
   \<and> session (run [Connection 0 True, Message 0 start_msg (draw ''1111'' 1),
                   PtyData 1 ''exec failed'', PtyExit 1 1] (initial ''0000'' 0)) =
     \<lparr>pty = None, clients = [0], outputBuffer = [''exec failed''], maxBufferLines = 5000,
      sessionId = ''1111'', createdAt = 0\<rparr>"
  by (simp add: run_def start_msg_def draw_def initial_def onConnection_def set_clients_def
      set_add_def start_empty_spawned or_default_def onData_def addToBuffer_def set_buffer_def
      broadcastToClients_eq onExit_eq sends_to_def Let_def)

text \<open>No handler but the connection and close handlers touches the registry, and those
  keep it free of repetitions: every state the server reaches satisfies the hypothesis
  \<open>distinct\<close> of the theorems about broadcasts.\<close>

lemma onMessage_clients:
  "clients (session (onMessage c m e w)) = clients (session w)"
  by (cases m)
    (auto simp: onMessage_def handleMessage_def createSharedPty_def set_buffer_def set_pty_def
      set_sessionId_def call_pty_def log_error_def send_def sendToOpen_eq ptyWrite_def
      ptyResize_def replayBufferToClient_def Let_def split: option.splits sum.splits)

lemma step_distinct:
  "distinct (clients (session w)) \<Longrightarrow> distinct (clients (session (step ev w)))"
  by (cases ev)
    (simp_all add: onMessage_clients onData_frame onExit_eq onClose_eq onConnection_def
      set_clients_def set_add_def distinct_removeAll)

lemma run_distinct:
  "distinct (clients (session w)) \<Longrightarrow> distinct (clients (session (run evs w)))"
  unfolding run_def by (induction evs arbitrary: w) (simp_all add: step_distinct)

lemma reachable_distinct: "distinct (clients (session (run evs (initial sid t))))"
  by (rule run_distinct) (simp add: initial_def)

text \<open>The cap is never assigned after start-up and the buffer only grows through
  \<open>addToBuffer\<close>: every state the server reaches satisfies the hypotheses of the theorem
  about the buffer.\<close>

lemma onMessage_buffer:
  "maxBufferLines (session (onMessage c m e w)) = maxBufferLines (session w)
   \<and> (outputBuffer (session (onMessage c m e w)) = outputBuffer (session w)
      \<or> outputBuffer (session (onMessage c m e w)) = [])"
  by (cases m)
    (auto simp: onMessage_def handleMessage_def createSharedPty_def set_buffer_def set_pty_def
      set_sessionId_def call_pty_def log_error_def send_def sendToOpen_eq ptyWrite_def
      ptyResize_def replayBufferToClient_def Let_def split: option.splits sum.splits)

lemma onMessage_within_cap:
  "buffer_within_cap w \<Longrightarrow> buffer_within_cap (onMessage c m e w)"
  using onMessage_buffer [of c m e w] by (auto simp: buffer_within_cap_def)

lemma onData_within_cap:
  "buffer_within_cap w \<Longrightarrow> buffer_within_cap (onData d w)"
  by (simp add: buffer_within_cap_def onData_def broadcastToClients_eq addToBuffer_cap
      addToBuffer_buffer) arith

lemma step_within_cap:
  "buffer_within_cap w \<Longrightarrow> buffer_within_cap (step ev w)"
proof (cases ev)
  case (Message c m e)
  then show "buffer_within_cap w \<Longrightarrow> ?thesis" by (simp add: onMessage_within_cap)
next
  case (PtyData p d)
  then show "buffer_within_cap w \<Longrightarrow> ?thesis" by (simp add: onData_within_cap)
qed (simp_all add: buffer_within_cap_def onExit_eq onClose_eq onConnection_def set_clients_def)

lemma run_within_cap:
  "buffer_within_cap w \<Longrightarrow> buffer_within_cap (run evs w)"
  unfolding run_def by (induction evs arbitrary: w) (simp_all add: step_within_cap)

lemma reachable_within_cap: "buffer_within_cap (run evs (initial sid t))"
  by (rule run_within_cap) (simp add: buffer_within_cap_def initial_def)

section \<open>The output buffer is a bounded queue of chunks\<close>

text \<open>
  C1, as the specification states it: after every append the snapshot is no longer than
  the configured cap, counted in bytes. The only cap the server configures is
  \<open>maxBufferLines = 5000\<close>, and \<open>addToBuffer\<close> compares it with the number of chunks,
  never with their sizes. One chunk of 102401 characters appended to the initial, empty
  buffer is kept whole: the snapshot is longer than 5000 and longer than 100 KiB.
\<close>

theorem C1_snapshot_exceeds_cap:
  "\<not> length (snapshot (addToBuffer (replicate 102401 (CHR ''x'')) (initial ''00'' 0)))
       \<le> maxBufferLines (session (initial ''00'' 0))
   \<and> \<not> length (snapshot (addToBuffer (replicate 102401 (CHR ''x'')) (initial ''00'' 0)))
       \<le> 100 * 1024"
  by (simp add: addToBuffer_def set_buffer_def snapshot_def initial_def Let_def)

text \<open>
  C1, amended: the cap counts chunks. Starting from a buffer within a positive cap (the
  initial buffer is empty and the cap is 5000), after any sequence of appends the buffer
  holds at most \<open>maxBufferLines\<close> chunks, and they are exactly the last chunks of the old
  buffer followed by the appended ones, in their order: chunks enter at the tail, leave
  at the head, and are never reordered. The cap itself is not changed.
\<close>

theorem C1_addToBuffer_bounded_fifo:
  assumes "0 < maxBufferLines (session w)"
    and "length (outputBuffer (session w)) \<le> maxBufferLines (session w)"
  shows "outputBuffer (session (fold addToBuffer ds w)) =
           drop (length (outputBuffer (session w) @ ds) - maxBufferLines (session w))
             (outputBuffer (session w) @ ds)
         \<and> length (outputBuffer (session (fold addToBuffer ds w))) \<le> maxBufferLines (session w)
         \<and> maxBufferLines (session (fold addToBuffer ds w)) = maxBufferLines (session w)"
proof -
  have eq: "outputBuffer (session (fold addToBuffer ds w)) =
           drop (length (outputBuffer (session w) @ ds) - maxBufferLines (session w))
             (outputBuffer (session w) @ ds)"
    using assms by (rule fold_addToBuffer_buffer)
  have "length (outputBuffer (session (fold addToBuffer ds w))) \<le> maxBufferLines (session w)"
    using assms by (simp add: eq)
  with eq show ?thesis by (simp add: fold_addToBuffer_cap)
qed

theorem C1_addToBuffer_bounded_fifo_witness:
  "0 < maxBufferLines (session small_session)
   \<and> length (outputBuffer (session small_session)) \<le> maxBufferLines (session small_session)
   \<and> outputBuffer (session (fold addToBuffer [''a'', ''b'', ''c''] small_session)) = [''b'', ''c'']
   \<and> length (outputBuffer (session (fold addToBuffer [''a'', ''b'', ''c''] small_session))) \<le> 2"
proof -
  have pos: "0 < maxBufferLines (session small_session)"
    by (simp add: small_session_def)
  have len: "length (outputBuffer (session small_session)) \<le> maxBufferLines (session small_session)"
    by (simp add: small_session_def)
  show ?thesis
    using pos len C1_addToBuffer_bounded_fifo [OF pos len, of "[''a'', ''b'', ''c'']"]
    by (simp add: small_session_def)
qed

section \<open>Joining a running session\<close>

text \<open>
  C3, as the specification states it: the client that joins is sent the snapshot and then
  the live output, with nothing duplicated. A socket is registered by the connection
  handler, before it sends start, and a broadcast goes to every registered open socket
  whether or not it has sent start. Here a second client connects to the started
  session, the process emits a chunk, and then the client sends start: it is sent the
  chunk live and again in the snapshot, while the first client is sent it once.
\<close>

theorem C3_duplicate_before_start:
  "sends_to 1 (sent (run [Connection 1 True, PtyData 1 ''x'',
                          Message 1 start_msg (draw ''2222'' 2)] started)) =
     [Output ''x'', Output ''x'', SessionMsg ''1111'' True 2 None]
   \<and> sends_to 0 (sent (run [Connection 1 True, PtyData 1 ''x'',
                          Message 1 start_msg (draw ''2222'' 2)] started)) =
     [SessionMsg ''1111'' True 1 None, Output ''x'']"
  by (simp add: started_eq run_def start_msg_def draw_def onData_def addToBuffer_def
      set_buffer_def broadcastToClients_eq onConnection_def set_clients_def set_add_def
      start_active snapshot_def sends_to_def Let_def)

text \<open>
  C3, amended: a start message that arrives while a process exists is a join. The session
  record is left as it was (same process, same identifier, same buffer, same clients) and
  no call is made on any pseudo-terminal. The only calls to \<open>send\<close> go to the requesting
  socket: one output message carrying the snapshot (none when the buffer is empty, see
  C10), then the session message; what any other socket has been sent is unchanged, and
  the terminal text sent to the requester is exactly the concatenation of the buffered
  chunks. From the start message on, every chunk the process emits is sent once, in
  order, to each registered open socket, and so to the requester, which is registered
  and whose socket is open: after what it had been sent before, it is sent the snapshot,
  the session message and then the same live output as every other client. Nothing is
  promised about output from before the start message: the requester has been registered
  since its connection, so a chunk emitted between its connection and its start was sent
  to it live and is sent again as the end of the snapshot.
\<close>

theorem C3_start_when_active_joins:
  assumes "pty (session w) = Some p" and "distinct (clients (session w))"
    and "c \<in> set (clients (session w))" and "readyState w c = OPEN"
  shows "session (onMessage c (Payload (Some ''start'') co ro da) e w) = session w
     \<and> ptyCalls (onMessage c (Payload (Some ''start'') co ro da) e w) = ptyCalls w
     \<and> sent (onMessage c (Payload (Some ''start'') co ro da) e w) =
         sent w @ (if outputBuffer (session w) = [] then [] else [(c, Output (snapshot w))])
                @ [(c, SessionMsg (sessionId (session w)) True (length (clients (session w))) None)]
     \<and> (\<forall>c'. c' \<noteq> c \<longrightarrow>
           sends_to c' (sent (onMessage c (Payload (Some ''start'') co ro da) e w)) =
           sends_to c' (sent w))
     \<and> output_text (sends_to c (drop (length (sent w))
             (sent (onMessage c (Payload (Some ''start'') co ro da) e w)))) =
         concat (outputBuffer (session w))
     \<and> (\<forall>ds c'. c' \<in> set (clients (session w)) \<and> readyState w c' = OPEN \<longrightarrow>
           sends_to c' (sent (run (map (PtyData p) ds)
                                 (onMessage c (Payload (Some ''start'') co ro da) e w))) =
           sends_to c' (sent (onMessage c (Payload (Some ''start'') co ro da) e w))
             @ map Output ds)
     \<and> (\<forall>ds. sends_to c (sent (run (Message c (Payload (Some ''start'') co ro da) e
                                       # map (PtyData p) ds) w)) =
           sends_to c (sent w)
             @ (if outputBuffer (session w) = [] then [] else [Output (snapshot w)])
             @ [SessionMsg (sessionId (session w)) True (length (clients (session w))) None]
             @ map Output ds)
     \<and> (\<forall>d. sends_to c (sent (run [PtyData p d,
                                      Message c (Payload (Some ''start'') co ro da) e] w)) =
           sends_to c (sent w)
             @ [Output d, Output (snapshot (onData d w)),
                SessionMsg (sessionId (session w)) True (length (clients (session w))) None]
         \<and> snapshot (onData d w) =
             concat (butlast (outputBuffer (session (onData d w)))) @ d)"
proof -
  let ?start = "Payload (Some ''start'') co ro da"
  let ?w' = "onMessage c ?start e w"
  let ?replay = "if outputBuffer (session w) = [] then [] else [(c, Output (snapshot w))]"
  let ?info = "SessionMsg (sessionId (session w)) True (length (clients (session w))) None"
  have eq: "?w' = w\<lparr>sent := sent w @ ?replay @ [(c, ?info)]\<rparr>"
    using assms(1) by (simp add: start_active)
  have s: "session ?w' = session w" and r: "readyState ?w' = readyState w"
    by (simp_all add: eq)
  have p: "ptyCalls ?w' = ptyCalls w"
    by (simp add: eq)
  have t: "sent ?w' = sent w @ ?replay @ [(c, ?info)]"
    by (simp add: eq)
  have others: "sends_to c' (sent ?w') = sends_to c' (sent w)" if "c' \<noteq> c" for c'
    using that by (simp add: eq sends_to_def)
  have snap: "output_text (sends_to c (drop (length (sent w)) (sent ?w'))) =
      concat (outputBuffer (session w))"
    by (simp add: eq sends_to_def snapshot_def output_text_def)
  have d': "distinct (clients (session ?w'))"
    using assms(2) by (simp only: s)
  have live: "sends_to c' (sent (run (map (PtyData p) ds) ?w')) =
           sends_to c' (sent ?w') @ map Output ds"
    if "c' \<in> set (clients (session w)) \<and> readyState w c' = OPEN" for ds c'
  proof -
    have m: "c' \<in> set (clients (session ?w')) \<and> readyState ?w' c' = OPEN"
      using that by (simp only: s r)
    then have "(if c' \<in> set (clients (session ?w')) \<and> readyState ?w' c' = OPEN
                then map Output ds else []) = map Output ds"
      by (rule if_P)
    with run_PtyData_sends [OF d', of c' p ds] show ?thesis
      by (simp only:)
  qed
  have own: "sends_to c (sent (run (Message c ?start e # map (PtyData p) ds) w)) =
           sends_to c (sent w)
             @ (if outputBuffer (session w) = [] then [] else [Output (snapshot w)])
             @ [?info] @ map Output ds" for ds
  proof -
    have "run (Message c ?start e # map (PtyData p) ds) w = run (map (PtyData p) ds) ?w'"
      using assms(3) by (simp add: run_def)
    moreover have "sends_to c (sent ?w') =
        sends_to c (sent w)
          @ (if outputBuffer (session w) = [] then [] else [Output (snapshot w)]) @ [?info]"
      by (simp add: t sends_to_def)
    ultimately show ?thesis
      using live [of c ds] assms(3,4) by simp
  qed
  have before: "sends_to c (sent (run [PtyData p d, Message c ?start e] w)) =
           sends_to c (sent w) @ [Output d, Output (snapshot (onData d w)), ?info]" for d
  proof -
    let ?w1 = "onData d w"
    have a: "pty (session ?w1) \<noteq> None"
      using assms(1) by (simp add: onData_frame)
    have ne: "outputBuffer (session ?w1) \<noteq> []"
      using addToBuffer_last [of d w] by (simp add: onData_buffer)
    have "run [PtyData p d, Message c ?start e] w = onMessage c ?start e ?w1"
      using assms(3) by (simp add: run_def onData_frame)
    moreover have "sent (onMessage c ?start e ?w1) =
        sent ?w1 @ [(c, Output (snapshot ?w1)), (c, ?info)]"
      using ne by (simp add: start_active [OF a] onData_frame)
    moreover have "sends_to c (sent ?w1) = sends_to c (sent w) @ [Output d]"
      using assms(2,3,4) by (simp add: onData_sent sends_to_append sends_to_fanout)
    ultimately show ?thesis
      by (simp add: sends_to_append) (simp add: sends_to_def)
  qed
  show ?thesis
    using s p t others snap live own before snapshot_onData by blast
qed

theorem C3_start_when_active_joins_witness:
  "pty (session joined) = Some 1 \<and> distinct (clients (session joined))
   \<and> 1 \<in> set (clients (session joined)) \<and> readyState joined 1 = OPEN
   \<and> session (onMessage 1 start_msg (draw ''2222'' 2) joined) = session joined
   \<and> ptyCalls (onMessage 1 start_msg (draw ''2222'' 2) joined) = [Spawn 1 80 24]
   \<and> sends_to 1 (sent (run (Message 1 start_msg (draw ''2222'' 2)
                              # map (PtyData 1) [''a'', ''b'']) joined)) =
       [Output ''hi'', SessionMsg ''1111'' True 2 None, Output ''a'', Output ''b'']
   \<and> sends_to 0 (sent (run (map (PtyData 1) [''a'', ''b''])
                              (onMessage 1 start_msg (draw ''2222'' 2) joined))) =
       [SessionMsg ''1111'' True 1 None, Output ''hi'', Output ''a'', Output ''b'']
   \<and> sends_to 1 (sent (run [PtyData 1 ''x'', Message 1 start_msg (draw ''2222'' 2)] joined)) =
       [Output ''x'', Output ''hix'', SessionMsg ''1111'' True 2 None]"
proof -
  have a: "pty (session joined) = Some 1"
    by (simp add: joined_eq)
  have d: "distinct (clients (session joined))"
    by (simp add: joined_eq)
  have r: "1 \<in> set (clients (session joined))"
    by (simp add: joined_eq)
  have o: "readyState joined 1 = OPEN"
    by (simp add: joined_eq)
  note th = C3_start_when_active_joins [OF a d r o, of "Some 80" "Some 24" None
      "draw ''2222'' 2", folded start_msg_def]
  have s: "session (onMessage 1 start_msg (draw ''2222'' 2) joined) = session joined"
    using th by blast
  have p: "ptyCalls (onMessage 1 start_msg (draw ''2222'' 2) joined) = [Spawn 1 80 24]"
    using th by (simp add: joined_eq)
  have t: "sent (onMessage 1 start_msg (draw ''2222'' 2) joined) =
      sent joined @ [(1, Output ''hi''), (1, SessionMsg ''1111'' True 2 None)]"
    using th by (simp add: joined_eq snapshot_def)
  have own: "\<forall>ds. sends_to 1 (sent (run (Message 1 start_msg (draw ''2222'' 2)
                                       # map (PtyData 1) ds) joined)) =
           sends_to 1 (sent joined)
             @ (if outputBuffer (session joined) = [] then [] else [Output (snapshot joined)])
             @ [SessionMsg (sessionId (session joined)) True (length (clients (session joined))) None]
             @ map Output ds"
    using th by blast
  have l1: "sends_to 1 (sent (run (Message 1 start_msg (draw ''2222'' 2)
                              # map (PtyData 1) [''a'', ''b'']) joined)) =
       [Output ''hi'', SessionMsg ''1111'' True 2 None, Output ''a'', Output ''b'']"
    using own [rule_format, of "[''a'', ''b'']"]
    by (simp add: joined_eq snapshot_def sends_to_def)
  have live: "\<forall>ds c'. c' \<in> set (clients (session joined)) \<and> readyState joined c' = OPEN \<longrightarrow>
           sends_to c' (sent (run (map (PtyData 1) ds)
                                 (onMessage 1 start_msg (draw ''2222'' 2) joined))) =
           sends_to c' (sent (onMessage 1 start_msg (draw ''2222'' 2) joined))
             @ map Output ds"
    using th by blast
  have l0: "sends_to 0 (sent (run (map (PtyData 1) [''a'', ''b''])
                              (onMessage 1 start_msg (draw ''2222'' 2) joined))) =
       [SessionMsg ''1111'' True 1 None, Output ''hi'', Output ''a'', Output ''b'']"
  proof -
    have "0 \<in> set (clients (session joined)) \<and> readyState joined 0 = OPEN"
      by (simp add: joined_eq)
    with live have "sends_to 0 (sent (run (map (PtyData 1) [''a'', ''b''])
                              (onMessage 1 start_msg (draw ''2222'' 2) joined))) =
        sends_to 0 (sent (onMessage 1 start_msg (draw ''2222'' 2) joined))
          @ map Output [''a'', ''b'']"
      by blast
    then show ?thesis
      unfolding t by (simp add: joined_eq sends_to_def)
  qed
  have before: "\<forall>d. sends_to 1 (sent (run [PtyData 1 d, Message 1 start_msg (draw ''2222'' 2)] joined)) =
           sends_to 1 (sent joined)
             @ [Output d, Output (snapshot (onData d joined)),
                SessionMsg (sessionId (session joined)) True (length (clients (session joined))) None]"
    using th by blast
  have b: "sends_to 1 (sent (run [PtyData 1 ''x'', Message 1 start_msg (draw ''2222'' 2)] joined)) =
       [Output ''x'', Output ''hix'', SessionMsg ''1111'' True 2 None]"
    using before [rule_format, of "''x''"]
    by (simp add: joined_eq snapshot_def sends_to_def onData_def addToBuffer_def set_buffer_def
        broadcastToClients_eq Let_def)
  show ?thesis
    using a d r o s p l1 l0 b by simp
qed

section \<open>Disconnecting\<close>

text \<open>
  C4: the close handler removes the closing socket from the registry and does nothing
  else. Stated for any number of closings in a row: the registry loses exactly the closed
  sockets and keeps the others in their order; the process reference, the buffer, the
  session identifier and the other fields of the session are unchanged; no call is made
  on the pseudo-terminal (it is not killed), nothing is sent, no socket is closed by the
  server, nothing is logged as an error. When every registered client has closed, the
  registry is empty and the process reference is still the one from before.
\<close>

theorem C4_close_only_unregisters:
  "clients (session (run (map Close cs) w)) = filter (\<lambda>x. x \<notin> set cs) (clients (session w))
   \<and> pty (session (run (map Close cs) w)) = pty (session w)
   \<and> outputBuffer (session (run (map Close cs) w)) = outputBuffer (session w)
   \<and> sessionId (session (run (map Close cs) w)) = sessionId (session w)
   \<and> maxBufferLines (session (run (map Close cs) w)) = maxBufferLines (session w)
   \<and> createdAt (session (run (map Close cs) w)) = createdAt (session w)
   \<and> ptyCalls (run (map Close cs) w) = ptyCalls w
   \<and> sent (run (map Close cs) w) = sent w
   \<and> closeCalls (run (map Close cs) w) = closeCalls w
   \<and> errorLog (run (map Close cs) w) = errorLog w
   \<and> readyState (run (map Close cs) w) = readyState w
   \<and> clients (session (run (map Close (clients (session w))) w)) = []
   \<and> pty (session (run (map Close (clients (session w))) w)) = pty (session w)"
  by (simp add: run_Close)

section \<open>Input without a process\<close>

text \<open>
  C7: an input message that arrives while there is no process changes nothing at all: the
  handler returns the state it was given, with no call on any pseudo-terminal and no
  error logged. Since the state is the same, every later run is the run that would have
  happened without the message: nothing of the dropped input is kept for a process
  started later.
\<close>

theorem C7_input_dropped_when_empty:
  assumes "pty (session w) = None"
  shows "onMessage c (Payload (Some ''input'') co ro da) e w = w
         \<and> run (Message c (Payload (Some ''input'') co ro da) e # evs) w = run evs w"
  using assms by (simp add: onMessage_def handleMessage_def run_def)

theorem C7_input_dropped_when_empty_witness:
  "pty (session after_exit) = None
   \<and> onMessage 0 (input_msg ''ls'') (spawn_ok 2) after_exit = after_exit
   \<and> ptyCalls (run [Message 0 (input_msg ''ls'') (spawn_ok 2), Message 0 start_msg (spawn_ok 2)]
        after_exit) = [Spawn 1 80 24, Spawn 2 80 24]"
proof -
  have a: "pty (session after_exit) = None"
    by (simp add: after_exit_def onExit_eq)
  note th = C7_input_dropped_when_empty [OF a, of 0 None None "Some ''ls''" "spawn_ok 2"
      "[Message 0 start_msg (spawn_ok 2)]", folded input_msg_def]
  have "ptyCalls (run [Message 0 start_msg (spawn_ok 2)] after_exit) = [Spawn 1 80 24, Spawn 2 80 24]"
    using a
    by (simp add: run_def start_msg_def start_empty_spawned spawn_ok_def or_default_def
        after_exit_def onExit_eq three_clients_def)
  with a th show ?thesis by simp
qed

section \<open>Broadcasting\<close>

text \<open>
  C8: a broadcast makes exactly one call to \<open>send\<close>, with the output message, on every
  registered socket whose \<open>readyState\<close> is open, and none on any other socket, whatever
  the states of the sockets before or after it in the registry; it changes nothing else
  (it has no error path). The registry is a set, so its list has no repetitions.
\<close>

theorem C8_broadcast_exactly_once:
  assumes "distinct (clients (session w))"
  shows "sends_to c (sent (broadcastToClients m w)) =
           sends_to c (sent w) @
             (if c \<in> set (clients (session w)) \<and> readyState w c = OPEN then [Output m] else [])
         \<and> session (broadcastToClients m w) = session w
         \<and> readyState (broadcastToClients m w) = readyState w
         \<and> ptyCalls (broadcastToClients m w) = ptyCalls w
         \<and> closeCalls (broadcastToClients m w) = closeCalls w
         \<and> errorLog (broadcastToClients m w) = errorLog w"
  using assms by (simp add: broadcastToClients_eq sends_to_append sends_to_fanout)

theorem C8_broadcast_exactly_once_witness:
  "distinct (clients (session three_clients))
   \<and> sends_to 0 (sent (broadcastToClients ''x'' three_clients)) = [Output ''x'']
   \<and> sends_to 1 (sent (broadcastToClients ''x'' three_clients)) = []
   \<and> sends_to 2 (sent (broadcastToClients ''x'' three_clients)) = [Output ''x'']
   \<and> errorLog (broadcastToClients ''x'' three_clients) = []"
proof -
  have d: "distinct (clients (session three_clients))"
    by (simp add: three_clients_def)
  show ?thesis
    using d C8_broadcast_exactly_once [OF d, of 0 "''x''"]
      C8_broadcast_exactly_once [OF d, of 1 "''x''"]
      C8_broadcast_exactly_once [OF d, of 2 "''x''"]
    by (simp add: three_clients_def sends_to_def)
qed

section \<open>Malformed and unknown messages\<close>

text \<open>
  C9: a message whose tag is none of start, new, input and resize (or is absent, or is not
  a string) leaves the state exactly as it was. A message that does not parse, or parses
  to \<open>null\<close>, is caught by the handler: the error is logged on the server and the state is
  otherwise as it was. In each case the session, the registry, the sockets' states and
  the logs of sends, of closes and of pseudo-terminal calls are unchanged: the socket
  stays registered and open, and no other client sees anything.
\<close>

theorem C9_bad_message_ignored:
  assumes "t \<notin> {Some ''start'', Some ''new'', Some ''input'', Some ''resize''}"
  shows "onMessage c (Payload t co ro da) e w = w
         \<and> onMessage c Unparseable e w = w\<lparr>errorLog := errorLog w @ [SyntaxError]\<rparr>
         \<and> onMessage c JsonNull e w = w\<lparr>errorLog := errorLog w @ [TypeError]\<rparr>"
  using assms by (simp add: onMessage_def handleMessage_def log_error_def)

theorem C9_bad_message_ignored_witness:
  "Some ''stop'' \<notin> {Some ''start'', Some ''new'', Some ''input'', Some ''resize''}
   \<and> onMessage 0 (Payload (Some ''stop'') None None None) (spawn_ok 2) three_clients = three_clients
   \<and> session (onMessage 0 Unparseable (spawn_ok 2) three_clients) = session three_clients
   \<and> closeCalls (onMessage 0 Unparseable (spawn_ok 2) three_clients) = []
   \<and> sent (onMessage 0 JsonNull (spawn_ok 2) three_clients) = []"
proof -
  have a: "Some ''stop'' \<notin> {Some ''start'', Some ''new'', Some ''input'', Some ''resize''}"
    by simp
  show ?thesis
    using a C9_bad_message_ignored [OF a, of 0 None None None "spawn_ok 2" three_clients]
    by (simp add: three_clients_def)
qed

section \<open>Replay\<close>

text \<open>
  C10: \<open>replayBufferToClient\<close> sends one output message, carrying the concatenation of the
  buffered chunks, when the buffer holds at least one chunk, and sends nothing when the
  buffer is empty. So among the messages a start sends to a client joining a running
  session there is an output message if and only if a chunk is buffered, and then
  exactly one.
\<close>

theorem C10_replay_iff_buffered:
  assumes "pty (session w) \<noteq> None"
  shows "sent (replayBufferToClient c w) =
           sent w @ (if outputBuffer (session w) = [] then []
                     else [(c, Output (concat (outputBuffer (session w))))])
         \<and> filter is_output
             (sends_to c (drop (length (sent w))
                (sent (onMessage c (Payload (Some ''start'') co ro da) e w)))) =
           (if outputBuffer (session w) = [] then []
            else [Output (concat (outputBuffer (session w)))])"
  using assms
  by (simp add: replay_sent start_active snapshot_def sends_to_def is_output_def)

theorem C10_replay_iff_buffered_witness:
  "pty (session small_session) \<noteq> None \<and> pty (session three_clients) \<noteq> None
   \<and> sent (onMessage 0 start_msg (spawn_ok 2) small_session) =
       [(0, SessionMsg ''aaaa'' True 1 None)]
   \<and> filter is_output (sends_to 0 (sent (onMessage 0 start_msg (spawn_ok 2) small_session))) = []
   \<and> filter is_output (sends_to 0 (sent (onMessage 0 start_msg (spawn_ok 2) three_clients))) =
       [Output ''hi'']"
proof -
  have a: "pty (session small_session) \<noteq> None"
    by (simp add: small_session_def)
  have b: "pty (session three_clients) \<noteq> None"
    by (simp add: three_clients_def)
  have t: "sent (onMessage 0 start_msg (spawn_ok 2) small_session) =
       [(0, SessionMsg ''aaaa'' True 1 None)]"
    using a by (simp add: start_msg_def start_active small_session_def)
  show ?thesis
    using a b t
      C10_replay_iff_buffered [OF a, of 0 "Some 80" "Some 24" None "spawn_ok 2",
        folded start_msg_def]
      C10_replay_iff_buffered [OF b, of 0 "Some 80" "Some 24" None "spawn_ok 2",
        folded start_msg_def]
    by (simp add: three_clients_def small_session_def)
qed

section \<open>Process exit\<close>

text \<open>
  C5, as the specification states it: the buffer is left intact on exit, so that a later
  join still replays the earlier output until the next explicit reset. The exit handler
  does leave the buffer intact, but nothing replays it: once the process reference is
  cleared, the next start takes the branch that creates a session, which clears the
  buffer and replays nothing. Here, after the first client has started the session, a
  chunk is emitted, the process exits, and a second client connects and sends start
  without any reset in between: it is sent the session message only, and the buffer is
  empty. A third client that then joins the new session is not sent the earlier chunk
  either.
\<close>

theorem C5_no_replay_after_exit:
  "outputBuffer (session (run [PtyData 1 ''hi'', PtyExit 1 0] started)) = [''hi'']
   \<and> sends_to 1 (sent (run [PtyData 1 ''hi'', PtyExit 1 0, Connection 1 True,
        Transport 1 OPEN, Message 1 start_msg (draw ''2222'' 2)] started)) =
       [SessionMsg ''2222'' True 2 None]
   \<and> outputBuffer (session (run [PtyData 1 ''hi'', PtyExit 1 0, Connection 1 True,
        Transport 1 OPEN, Message 1 start_msg (draw ''2222'' 2)] started)) = []
   \<and> sends_to 2 (sent (run [PtyData 1 ''hi'', PtyExit 1 0, Connection 1 True,
        Transport 1 OPEN, Message 1 start_msg (draw ''2222'' 2), Connection 2 True,
        Transport 2 OPEN, Message 2 start_msg (draw ''3333'' 3)] started)) =
       [SessionMsg ''2222'' True 3 None]"
  by (simp add: started_eq run_def start_msg_def draw_def onExit_eq or_default_def
      onData_def addToBuffer_def set_buffer_def broadcastToClients_eq onConnection_def
      set_clients_def set_add_def start_empty_spawned start_active sends_to_def Let_def)

text \<open>
  C5, amended: when the exit handler runs, every registered socket whose \<open>readyState\<close> is
  open is sent exactly one exit message carrying the exit code and no other socket is
  sent anything; the process reference is cleared and every other field of the session,
  the buffer among them, is unchanged; no call is made on a pseudo-terminal. The buffer
  is not replayed afterwards: the next start, with a spawn that succeeds, installs the new
  process, draws a new identifier, clears the buffer and sends the requester the session
  message alone.
\<close>

theorem C5_exit_notifies_and_empties:
  assumes "distinct (clients (session w))" and "spawnResult e = Some q"
  shows "sends_to c (sent (onExit code w)) =
           sends_to c (sent w) @
             (if c \<in> set (clients (session w)) \<and> readyState w c = OPEN then [ExitMsg code] else [])
         \<and> session (onExit code w) = (session w)\<lparr>pty := None\<rparr>
         \<and> ptyCalls (onExit code w) = ptyCalls w
         \<and> session (onMessage c (Payload (Some ''start'') co ro da) e (onExit code w)) =
             (session w)\<lparr>pty := Some q, sessionId := randomHex e, outputBuffer := []\<rparr>
         \<and> sent (onMessage c (Payload (Some ''start'') co ro da) e (onExit code w)) =
             sent (onExit code w) @
               [(c, SessionMsg (randomHex e) True (length (clients (session w))) None)]"
proof -
  have n: "pty (session (onExit code w)) = None"
    by (simp add: onExit_eq)
  have "sends_to c (sent (onExit code w)) =
           sends_to c (sent w) @
             (if c \<in> set (clients (session w)) \<and> readyState w c = OPEN then [ExitMsg code] else [])"
    using assms(1) by (simp add: onExit_eq sends_to_append sends_to_fanout)
  moreover have "session (onExit code w) = (session w)\<lparr>pty := None\<rparr>"
    and "ptyCalls (onExit code w) = ptyCalls w"
    by (simp_all add: onExit_eq)
  moreover have "session (onMessage c (Payload (Some ''start'') co ro da) e (onExit code w)) =
             (session w)\<lparr>pty := Some q, sessionId := randomHex e, outputBuffer := []\<rparr>"
    by (simp add: start_empty_spawned [OF n assms(2)]) (simp add: onExit_eq)
  moreover have "sent (onMessage c (Payload (Some ''start'') co ro da) e (onExit code w)) =
             sent (onExit code w) @
               [(c, SessionMsg (randomHex e) True (length (clients (session w))) None)]"
    by (simp add: start_empty_spawned [OF n assms(2)]) (simp add: onExit_eq)
  ultimately show ?thesis by simp
qed

theorem C5_exit_notifies_and_empties_witness:
  "distinct (clients (session three_clients)) \<and> spawnResult (spawn_ok 2) = Some 2
   \<and> sends_to 0 (sent (onExit 7 three_clients)) = [ExitMsg 7]
   \<and> sends_to 1 (sent (onExit 7 three_clients)) = []
   \<and> sends_to 2 (sent (onExit 7 three_clients)) = [ExitMsg 7]
   \<and> pty (session (onExit 7 three_clients)) = None
   \<and> outputBuffer (session (onExit 7 three_clients)) = [''hi'']
   \<and> outputBuffer (session (onMessage 2 start_msg (spawn_ok 2) (onExit 7 three_clients))) = []
   \<and> sends_to 2 (sent (onMessage 2 start_msg (spawn_ok 2) (onExit 7 three_clients))) =
       [ExitMsg 7, SessionMsg ''bbbb'' True 3 None]"
proof -
  have d: "distinct (clients (session three_clients))"
    by (simp add: three_clients_def)
  have q: "spawnResult (spawn_ok 2) = Some 2"
    by (simp add: spawn_ok_def)
  note th = C5_exit_notifies_and_empties [OF d q, where code = 7 and co = "Some 80"
      and ro = "Some 24" and da = None, folded start_msg_def]
  show ?thesis
    using d q th [of 0] th [of 1] th [of 2]
    by (simp add: three_clients_def spawn_ok_def sends_to_append) (simp add: sends_to_def)
qed

section \<open>Spawn failure\<close>

text \<open>
  C6, as the specification states it: a spawn failure during start is surfaced to the
  requesting client. The one failure the start handler can see is \<^verbatim>\<open>pty.spawn\<close>
  throwing, and the handler's \<^verbatim>\<open>catch\<close> only calls \<^verbatim>\<open>console.error\<close>; the server
  has no message for errors. A client connects, sends start, and \<^verbatim>\<open>pty.spawn\<close>
  throws: nothing at all has been sent, the socket has not been closed, and the error is
  in the server's log.
\<close>

theorem C6_spawn_failure_not_reported:
  "sent (run [Connection 0 True, Transport 0 OPEN, Message 0 start_msg spawn_fails]
          (initial ''aaaa'' 0)) = []
   \<and> closeCalls (run [Connection 0 True, Transport 0 OPEN, Message 0 start_msg spawn_fails]
          (initial ''aaaa'' 0)) = []
   \<and> errorLog (run [Connection 0 True, Transport 0 OPEN, Message 0 start_msg spawn_fails]
          (initial ''aaaa'' 0)) = [SpawnError]"
  by (simp add: run_def start_msg_def spawn_fails_def initial_def onConnection_def
      set_clients_def set_add_def start_empty_failed)

text \<open>
  C6, amended, for a spawn that fails by \<^verbatim>\<open>pty.spawn\<close> throwing: if \<^verbatim>\<open>pty.spawn\<close>
  throws during a start that found no process, the exception is logged on the server and
  reported to no client; the session is left as it was, without a process reference (and
  with its identifier and buffer unchanged), nothing is sent, no call on a
  pseudo-terminal is recorded and no socket is closed. A shell that cannot be launched
  although \<^verbatim>\<open>pty.spawn\<close> has returned is not a failure of the start and is outside this
  statement: the start succeeds, and the failure arrives afterwards as the output and
  the exit event of the process (\<open>launch_failure_after_spawn\<close> above).
\<close>

theorem C6_spawn_failure_logged_session_empty:
  assumes "pty (session w) = None" and "spawnResult e = None"
  shows "onMessage c (Payload (Some ''start'') co ro da) e w =
           w\<lparr>errorLog := errorLog w @ [SpawnError]\<rparr>
         \<and> pty (session (onMessage c (Payload (Some ''start'') co ro da) e w)) = None
         \<and> session (onMessage c (Payload (Some ''start'') co ro da) e w) = session w
         \<and> sent (onMessage c (Payload (Some ''start'') co ro da) e w) = sent w
         \<and> ptyCalls (onMessage c (Payload (Some ''start'') co ro da) e w) = ptyCalls w
         \<and> closeCalls (onMessage c (Payload (Some ''start'') co ro da) e w) = closeCalls w"
  using assms by (simp add: start_empty_failed)

theorem C6_spawn_failure_logged_session_empty_witness:
  "pty (session after_exit) = None \<and> spawnResult spawn_fails = None
   \<and> pty (session (onMessage 0 start_msg spawn_fails after_exit)) = None
   \<and> sent (onMessage 0 start_msg spawn_fails after_exit) = sent after_exit
   \<and> errorLog (onMessage 0 start_msg spawn_fails after_exit) = [SpawnError]"
proof -
  have a: "pty (session after_exit) = None"
    by (simp add: after_exit_def onExit_eq)
  have b: "spawnResult spawn_fails = None"
    by (simp add: spawn_fails_def)
  show ?thesis
    using a b C6_spawn_failure_logged_session_empty [OF a b, of 0 "Some 80" "Some 24" None,
        folded start_msg_def]
    by (simp add: after_exit_def onExit_eq three_clients_def)
qed

section \<open>Reset\<close>

text \<open>
  C2 at a concrete run from start-up. The first client has started the session, which
  has process 1. The client sends new: process 1 is killed, process 2 is spawned and is
  the session's process, the identifier is the fresh draw and the buffer is empty
  (\<open>new_spawned\<close> above has this for every state). Then the exit event of the killed
  process 1 arrives. The exit handler registered on process 1 clears
  \<^verbatim>\<open>SHARED_SESSION.pty\<close> without asking whether process 1 is still the session's
  process: the session has no process reference although process 2 was spawned and has
  neither been killed nor exited, the client has been told that the process exited, and
  the next input is dropped instead of being written to process 2.
\<close>

theorem C2_predecessor_exit_empties_session:
  "pty (session started) = Some 1
   \<and> pty (session (run [Message 0 new_msg (draw ''2222'' 2)] started)) = Some 2
   \<and> pty (session (run [Message 0 new_msg (draw ''2222'' 2), PtyExit 1 0] started)) = None
   \<and> ptyCalls (run [Message 0 new_msg (draw ''2222'' 2), PtyExit 1 0] started) =
       [Spawn 1 80 24, Kill 1, Spawn 2 80 24]
   \<and> sent (run [Message 0 new_msg (draw ''2222'' 2), PtyExit 1 0] started) =
       [(0, SessionMsg ''1111'' True 1 None), (0, SessionMsg ''2222'' True 1 (Some True)),
        (0, ExitMsg 0)]
   \<and> ptyCalls (run [Message 0 new_msg (draw ''2222'' 2), PtyExit 1 0,
                     Message 0 (input_msg ''ls'') (draw ''3333'' 3)] started) =
       [Spawn 1 80 24, Kill 1, Spawn 2 80 24]"
  by (simp add: started_eq run_def new_msg_def input_msg_def draw_def new_spawned onExit_eq
      or_default_def input_without_pty)

end
